theory Spec2Isabelle
  imports Main "HOL-Library.Word" "HOL-Library.AList"
begin

section \<open>Bytes and fixed-width encodings\<close>

type_synonym byte = "8 word"
type_synonym bytes = "byte list"

text \<open>
  \<open>binary.Write(&buf, binary.BigEndian, i)\<close> emits the bytes of a fixed-width integer,
  most significant first.  \<open>be_bytes n w\<close> is the list of the \<open>n\<close> low bytes of \<open>w\<close> in
  that order.
\<close>

primrec be_bytes :: "nat \<Rightarrow> 'a::len word \<Rightarrow> bytes" where
  "be_bytes 0 w = []"
| "be_bytes (Suc n) w = ucast (drop_bit (8 * n) w) # be_bytes n w"

text \<open>\<open>I64tB\<close> (part\_001, l. 208): an \<open>int64\<close> as 8 big-endian bytes.\<close>

definition I64tB :: "64 word \<Rightarrow> bytes" where
  "I64tB i = be_bytes 8 i"

text \<open>\<open>U32tB\<close> (part\_001, l. 215): a \<open>uint32\<close> as 4 big-endian bytes.\<close>

definition U32tB :: "32 word \<Rightarrow> bytes" where
  "U32tB i = be_bytes 4 i"

text \<open>
  Go's builtin \<open>copy(dst, src)\<close> overwrites the first \<open>min (len dst) (len src)\<close> bytes of
  \<open>dst\<close> and leaves the rest; the result is the new content of \<open>dst\<close>.
\<close>

definition copy_go :: "bytes \<Rightarrow> bytes \<Rightarrow> bytes" where
  "copy_go dst src = take (length dst) src @ drop (length src) dst"

text \<open>Value of a big-endian byte string, used to read encodings back.\<close>

definition be_nat :: "bytes \<Rightarrow> nat" where
  "be_nat bs = foldl (\<lambda>acc b. 256 * acc + unat b) 0 bs"

section \<open>The watchtower store (package sorceror)\<close>

subsection \<open>Errors\<close>

text \<open>
  Every \<open>fmt.Errorf\<close> of the package, the errors of the bolt bucket operations it
  calls, the errors handed up from the elkrem package, and the run-time panics the code
  can raise.
\<close>

datatype sorceror_error =
    ErrNoPKHmapBucket
  | ErrNoChandataBucket
  | ErrNoChannelBucket bytes
  | ErrChannelNoIndex bytes
  | ErrNoTxidBucket
  | ErrBucketExists
  | ErrBucketNameRequired
  | ErrKeyRequired
  | ErrKeyTooLarge
  | ErrValueTooLarge
  | ErrElkrem string
  | PanicNilBucket
  | PanicSliceBounds

subsection \<open>bolt buckets\<close>

text \<open>
  A bolt bucket of plain key/value pairs is an association list with distinct keys;
  \<open>Get\<close> answers \<open>nil\<close> (\<open>None\<close>) for a key that is absent, \<open>Put\<close> replaces the
  value of a key that is present.  \<open>Put\<close> fails as bolt documents: on an empty key,
  on a key longer than 32768 bytes, on a value longer than \<open>2^31 - 2\<close> bytes;
  \<open>CreateBucket\<close> fails on an empty name and on a name already in use.
\<close>

type_synonym bucket = "(bytes \<times> bytes) list"

definition Get :: "bucket \<Rightarrow> bytes \<Rightarrow> bytes option" where
  "Get b k = map_of b k"

definition Put :: "bucket \<Rightarrow> bytes \<Rightarrow> bytes \<Rightarrow> sorceror_error + bucket" where
  "Put b k v =
     (if k = [] then Inl ErrKeyRequired
      else if length k > 32768 then Inl ErrKeyTooLarge
      else if length v > 2147483646 then Inl ErrValueTooLarge
      else Inr (AList.update k v b))"

text \<open>
  The store has the three top-level buckets of the header comment of part\_001: the
  index-to-PKH map \<open>pkm\<close>, the per-channel sub-buckets \<open>cda\<close> (keyed by destination PKH)
  and the txid bucket \<open>txi\<close>.  A top-level bucket that was never created is \<open>None\<close>
  (\<open>btx.Bucket\<close> returns \<open>nil\<close>).
\<close>

record SorceDB =
  pkm :: "bucket option"
  cda :: "(bytes \<times> bucket) list option"
  txi :: "bucket option"

definition SubBucket :: "(bytes \<times> bucket) list \<Rightarrow> bytes \<Rightarrow> bucket option" where
  "SubBucket all name = map_of all name"

definition CreateBucket ::
  "(bytes \<times> bucket) list \<Rightarrow> bytes \<Rightarrow> sorceror_error + (bytes \<times> bucket) list" where
  "CreateBucket all name =
     (if name = [] then Inl ErrBucketNameRequired
      else if map_of all name \<noteq> None then Inl ErrBucketExists
      else Inr (AList.update name [] all))"

text \<open>
  \<open>DB.Update\<close> runs the function in a read-write transaction: the transaction commits
  when the function returns \<open>nil\<close> and is rolled back when it returns an error (or
  panics).  \<open>DB.View\<close> runs it in a read-only transaction, which is always rolled back.
  The function is given the transaction's working copy and returns it with its result.
\<close>

definition Update ::
  "SorceDB \<Rightarrow> (SorceDB \<Rightarrow> sorceror_error option \<times> SorceDB) \<Rightarrow> sorceror_error option \<times> SorceDB" where
  "Update db fn =
     (case fn db of
        (None, btx) \<Rightarrow> (None, btx)
      | (Some err, btx) \<Rightarrow> (Some err, db))"

definition View :: "SorceDB \<Rightarrow> (SorceDB \<Rightarrow> 'r \<times> SorceDB) \<Rightarrow> 'r \<times> SorceDB" where
  "View db fn = (case fn db of (r, btx) \<Rightarrow> (r, db))"

definition KEYStatic :: bytes where
  "KEYStatic = [0x73, 0x74, 0x61]"

definition KEYElkRcv :: bytes where
  "KEYElkRcv = [0x65, 0x6c, 0x6b]"

definition KEYIdx :: bytes where
  "KEYIdx = [0x69, 0x64, 0x78]"

subsection \<open>The elkrem receiver\<close>

text \<open>
  The package \<open>elkrem\<close> is not among the source files.  The store only calls it, so its
  operations are a parameter of the model: \<open>'e\<close> is the receiver's state,
  \<open>ElkremReceiverFromBytes\<close> deserialises what \<open>Get\<close> returned (\<open>None\<close> is the \<open>nil\<close>
  slice), \<open>AddNext\<close> updates the receiver in place and may return an error, \<open>UpTo\<close> is
  a \<open>uint64\<close> (the conversion \<open>int64(elkr.UpTo())\<close> keeps its 64 bits), \<open>ToBytes\<close>
  serialises, and \<open>elk_zero_value\<close> is the value of \<open>var elkr elkrem.ElkremReceiver\<close>.
\<close>

record 'e elkrem_pkg =
  ElkremReceiverFromBytes :: "bytes option \<Rightarrow> sorceror_error + 'e"
  AddNext :: "'e \<Rightarrow> bytes \<Rightarrow> sorceror_error option \<times> 'e"
  UpTo :: "'e \<Rightarrow> 64 word"
  ToBytes :: "'e \<Rightarrow> sorceror_error + bytes"
  elk_zero_value :: "'e"

subsection \<open>Messages\<close>

text \<open>
  \<open>StateMsg\<close> and \<open>SorceDescriptor\<close> are declared outside the source files; the fields
  are the ones \<open>AddDesc\<close>, \<open>AddMsg\<close> and \<open>CheckTxids\<close> use.  They are fixed-size byte
  arrays: 20 bytes of destination PKH, 16 bytes of txid (the length \<open>CheckTxids\<close>
  copies into it), a 32-byte hash and a 64-byte signature.  The remaining fields of a
  descriptor reach the store only through \<open>sd.ToBytes()\<close>, kept as \<open>sd_bytes\<close>.
\<close>

record StateMsg =
  DestPKHScript :: bytes
  Txid :: bytes
  Elk :: bytes
  Sig :: bytes

record SorceDescriptor =
  sd_DestPKHScript :: bytes
  sd_ElkZero :: bytes
  sd_bytes :: bytes

text \<open>The zero value of \<open>var sm StateMsg\<close>.\<close>

definition StateMsg_zero :: StateMsg where
  "StateMsg_zero =
     \<lparr>DestPKHScript = replicate 20 0, Txid = replicate 16 0,
      Elk = replicate 32 0, Sig = replicate 64 0\<rparr>"

subsection \<open>AddDesc\<close>

text \<open>
  The body of the transaction function of \<open>AddDesc\<close> (part\_001, l. 71--114).  The slice
  \<open>sdBytes[:96]\<close> panics when the serialised descriptor is shorter than 96 bytes (a
  slice bound past the capacity panics; the capacity is taken to be the length).  The
  error of the first \<open>Put\<close> and of the first \<open>AddNext\<close> are dropped, as in the source.
  The new channel's index is the number of keys of the PKH map, cut to 32 bits.
\<close>

definition AddDesc_fn ::
  "'e elkrem_pkg \<Rightarrow> SorceDescriptor \<Rightarrow> SorceDB \<Rightarrow> sorceror_error option \<times> SorceDB" where
  "AddDesc_fn E sd btx =
    (case pkm btx of
       None \<Rightarrow> (Some ErrNoPKHmapBucket, btx)
     | Some mbkt \<Rightarrow>
    let cIdxBytes = U32tB (of_nat (length mbkt)) in
    (case cda btx of
       None \<Rightarrow> (Some ErrNoChandataBucket, btx)
     | Some allChanbkt \<Rightarrow>
    (case CreateBucket allChanbkt (sd_DestPKHScript sd) of
       Inl err \<Rightarrow> (Some err, btx)
     | Inr allChanbkt1 \<Rightarrow>
    let btx1 = btx\<lparr>cda := Some allChanbkt1\<rparr>;
        store = (\<lambda>cbkt. btx\<lparr>cda := Some (AList.update (sd_DestPKHScript sd) cbkt allChanbkt1)\<rparr>);
        sdBytes = sd_bytes sd in
    if length sdBytes < 96 then (Some PanicSliceBounds, btx1)
    else
    let cbkt1 = (case Put [] KEYStatic (take 96 sdBytes) of Inl err \<Rightarrow> [] | Inr c \<Rightarrow> c);
        elkr = snd (AddNext E (elk_zero_value E) (sd_ElkZero sd)) in
    (case ToBytes E elkr of
       Inl err \<Rightarrow> (Some err, store cbkt1)
     | Inr elkBytes \<Rightarrow>
    (case Put cbkt1 KEYElkRcv elkBytes of
       Inl err \<Rightarrow> (Some err, store cbkt1)
     | Inr cbkt2 \<Rightarrow>
    (case Put cbkt2 KEYIdx cIdxBytes of
       Inl err \<Rightarrow> (Some err, store cbkt2)
     | Inr cbkt3 \<Rightarrow>
    (case Put mbkt cIdxBytes (sd_DestPKHScript sd) of
       Inl err \<Rightarrow> (Some err, store cbkt3)
     | Inr mbkt1 \<Rightarrow> (None, (store cbkt3)\<lparr>pkm := Some mbkt1\<rparr>))))))))"

definition AddDesc ::
  "'e elkrem_pkg \<Rightarrow> SorceDB \<Rightarrow> SorceDescriptor \<Rightarrow> sorceror_error option \<times> SorceDB" where
  "AddDesc E db sd = Update db (AddDesc_fn E sd)"

subsection \<open>AddMsg\<close>

text \<open>
  The 74 bytes of l. 169--172: a zeroed buffer, then three \<open>copy\<close> calls into the slices
  \<open>[:4]\<close>, \<open>[4:10]\<close> and \<open>[10:]\<close>.
\<close>

definition sigIdx :: "bytes \<Rightarrow> bytes \<Rightarrow> bytes \<Rightarrow> bytes" where
  "sigIdx cIdxBytes stateNumBytes sig =
     (let b0 = replicate 74 0;
          b1 = copy_go (take 4 b0) cIdxBytes @ drop 4 b0;
          b2 = take 4 b1 @ copy_go (take 6 (drop 4 b1)) (drop 2 stateNumBytes) @ drop 10 b1
      in take 10 b2 @ copy_go (drop 10 b2) sig)"

text \<open>The body of the transaction function of \<open>AddMsg\<close> (part\_001, l. 116--177).\<close>

definition AddMsg_fn ::
  "'e elkrem_pkg \<Rightarrow> StateMsg \<Rightarrow> SorceDB \<Rightarrow> sorceror_error option \<times> SorceDB" where
  "AddMsg_fn E sm btx =
    (case cda btx of
       None \<Rightarrow> (Some ErrNoChandataBucket, btx)
     | Some allChanbkt \<Rightarrow>
    (case SubBucket allChanbkt (DestPKHScript sm) of
       None \<Rightarrow> (Some (ErrNoChannelBucket (DestPKHScript sm)), btx)
     | Some cbkt \<Rightarrow>
    (case ElkremReceiverFromBytes E (Get cbkt KEYElkRcv) of
       Inl err \<Rightarrow> (Some err, btx)
     | Inr elkr0 \<Rightarrow>
    (case AddNext E elkr0 (Elk sm) of
       (Some err, elkr) \<Rightarrow> (Some err, btx)
     | (None, elkr) \<Rightarrow>
    let stateNumBytes = I64tB (UpTo E elkr) in
    (case ToBytes E elkr of
       Inl err \<Rightarrow> (Some err, btx)
     | Inr elkBytes \<Rightarrow>
    (case Put cbkt KEYElkRcv elkBytes of
       Inl err \<Rightarrow> (Some err, btx)
     | Inr cbkt1 \<Rightarrow>
    let btx1 = btx\<lparr>cda := Some (AList.update (DestPKHScript sm) cbkt1 allChanbkt)\<rparr> in
    (case Get cbkt1 KEYIdx of
       None \<Rightarrow> (Some (ErrChannelNoIndex (DestPKHScript sm)), btx1)
     | Some cIdxBytes \<Rightarrow>
    (case txi btx1 of
       None \<Rightarrow> (Some ErrNoTxidBucket, btx1)
     | Some txidbkt \<Rightarrow>
    let sigIdxBytes = sigIdx cIdxBytes stateNumBytes (Sig sm) in
    (case Put txidbkt (take 8 (Txid sm)) sigIdxBytes of
       Inl err \<Rightarrow> (Some err, btx1)
     | Inr txidbkt1 \<Rightarrow> (None, btx1\<lparr>txi := Some txidbkt1\<rparr>))))))))))"

definition AddMsg ::
  "'e elkrem_pkg \<Rightarrow> SorceDB \<Rightarrow> StateMsg \<Rightarrow> sorceror_error option \<times> SorceDB" where
  "AddMsg E db sm = Update db (AddMsg_fn E sm)"

subsection \<open>CheckTxids\<close>

text \<open>
  The loop of \<open>CheckTxids\<close> (part\_001, l. 187--197) over the input txids (32-byte
  hashes).  \<open>bkt\<close> is not checked for \<open>nil\<close>: the first \<open>bkt.Get\<close> on a missing bucket
  dereferences a nil pointer.  A hit appends a zero \<open>StateMsg\<close> whose \<open>Txid\<close> received
  \<open>txid[:16]\<close>; \<open>idxsig\<close> is only compared with \<open>nil\<close>.
\<close>

fun CheckTxids_loop ::
  "bucket option \<Rightarrow> bytes list \<Rightarrow> StateMsg list \<Rightarrow> sorceror_error + StateMsg list" where
  "CheckTxids_loop bkt [] hitTxids = Inr hitTxids"
| "CheckTxids_loop bkt (txid # rest) hitTxids =
     (case bkt of
        None \<Rightarrow> Inl PanicNilBucket
      | Some b \<Rightarrow>
         (case Get b (take 8 txid) of
            None \<Rightarrow> CheckTxids_loop bkt rest hitTxids
          | Some idxsig \<Rightarrow>
              let sm = StateMsg_zero\<lparr>Txid := copy_go (Txid StateMsg_zero) (take 16 txid)\<rparr>
              in CheckTxids_loop bkt rest (hitTxids @ [sm])))"

definition CheckTxids_fn ::
  "bytes list \<Rightarrow> SorceDB \<Rightarrow> (sorceror_error + StateMsg list) \<times> SorceDB" where
  "CheckTxids_fn inTxids btx = (CheckTxids_loop (txi btx) inTxids [], btx)"

definition CheckTxids ::
  "SorceDB \<Rightarrow> bytes list \<Rightarrow> (sorceror_error + StateMsg list) \<times> SorceDB" where
  "CheckTxids db inTxids = View db (CheckTxids_fn inTxids)"

subsection \<open>Reading the store\<close>

definition channel_bucket :: "SorceDB \<Rightarrow> bytes \<Rightarrow> bucket option" where
  "channel_bucket db pkh = (case cda db of None \<Rightarrow> None | Some all \<Rightarrow> SubBucket all pkh)"

definition stored_idx :: "SorceDB \<Rightarrow> bytes \<Rightarrow> bytes option" where
  "stored_idx db pkh = (case channel_bucket db pkh of None \<Rightarrow> None | Some c \<Rightarrow> Get c KEYIdx)"

definition stored_elk :: "SorceDB \<Rightarrow> bytes \<Rightarrow> bytes option" where
  "stored_elk db pkh = (case channel_bucket db pkh of None \<Rightarrow> None | Some c \<Rightarrow> Get c KEYElkRcv)"

definition txid_record :: "SorceDB \<Rightarrow> bytes \<Rightarrow> bytes option" where
  "txid_record db key = (case txi db of None \<Rightarrow> None | Some t \<Rightarrow> Get t key)"

text \<open>
  The store invariant on channel indices: whatever is stored under \<open>KEYIdx\<close> in a channel
  bucket is 4 bytes long (\<open>AddDesc\<close> writes \<open>U32tB\<close> there and nothing else writes the
  key).
\<close>

definition idx_ok :: "SorceDB \<Rightarrow> bool" where
  "idx_ok db =
     (case cda db of
        None \<Rightarrow> True
      | Some all \<Rightarrow>
          list_all (\<lambda>(pkh, cbkt). case Get cbkt KEYIdx of None \<Rightarrow> True | Some c \<Rightarrow> length c = 4) all)"

text \<open>The store right after its three buckets were created.\<close>

definition SorceDB_empty :: SorceDB where
  "SorceDB_empty = \<lparr>pkm = Some [], cda = Some [], txi = Some []\<rparr>"

text \<open>The stores that \<open>AddDesc\<close> and \<open>AddMsg\<close> can produce from the empty one.\<close>

inductive reachable :: "'e elkrem_pkg \<Rightarrow> SorceDB \<Rightarrow> bool" for E :: "'e elkrem_pkg" where
  reach_empty: "reachable E SorceDB_empty"
| reach_AddDesc: "reachable E db \<Longrightarrow> reachable E (snd (AddDesc E db sd))"
| reach_AddMsg: "reachable E db \<Longrightarrow> reachable E (snd (AddMsg E db sm))"

section \<open>The shell commands (qlnshell.go)\<close>

subsection \<open>Errors\<close>

text \<open>
  One constructor for each \<open>fmt.Errorf\<close> of the file, the two errors of
  \<open>strconv.ParseInt\<close>, and \<open>ErrExternal\<close> for an error returned by a function that is
  not among the source files (its text is the argument).
\<close>

datatype shell_error =
    ErrNeedArgs
  | ErrNotConnected
  | ErrChannelNotDone "32 word"
  | ErrSyntax
  | ErrRange
  | ErrNegative
  | ErrMinCapacity
  | ErrCantSend int int
  | ErrMaxPush int
  | ErrWrongPeer "32 word" "32 word"
  | ErrChannelClosed "32 word" int
  | ErrExternal string

subsection \<open>strconv.ParseInt(s, 10, 32)\<close>

text \<open>
  The digit loop of \<open>strconv.ParseUint(s, 10, 64)\<close>: a byte that is not a decimal digit
  is a syntax error; \<open>n \<ge> cutoff\<close> (\<open>cutoff = maxUint64/10 + 1\<close>) or a sum past
  \<open>maxUint64\<close> is a range error.
\<close>

fun ParseUint_loop :: "nat \<Rightarrow> string \<Rightarrow> shell_error + nat" where
  "ParseUint_loop n [] = Inr n"
| "ParseUint_loop n (d # s) =
     (if \<not> (48 \<le> (of_char d :: nat) \<and> (of_char d :: nat) \<le> 57) then Inl ErrSyntax
      else if n \<ge> 1844674407370955162 then Inl ErrRange
      else if n * 10 + (of_char d - 48) > 18446744073709551615 then Inl ErrRange
      else ParseUint_loop (n * 10 + (of_char d - 48)) s)"

definition ParseUint :: "string \<Rightarrow> shell_error + nat" where
  "ParseUint s = (if s = [] then Inl ErrSyntax else ParseUint_loop 0 s)"

text \<open>
  \<open>strconv.ParseInt(s, 10, 32)\<close>: an optional sign, then \<open>ParseUint\<close>; the value must
  fit 32 bits signed, else the error is a range error.  The result is the \<open>int64\<close>.
\<close>

definition ParseInt32 :: "string \<Rightarrow> shell_error + int" where
  "ParseInt32 s0 =
     (if s0 = [] then Inl ErrSyntax
      else
        let neg = (hd s0 = CHR ''-'');
            s = (if hd s0 = CHR ''+'' \<or> hd s0 = CHR ''-'' then tl s0 else s0)
        in (case ParseUint s of
              Inl err \<Rightarrow> Inl err
            | Inr un \<Rightarrow>
                if \<not> neg \<and> un \<ge> 2147483648 then Inl ErrRange
                else if neg \<and> un > 2147483648 then Inl ErrRange
                else Inr (if neg then - int un else int un)))"

subsection \<open>The node and the channel\<close>

text \<open>
  Of the channel (\<open>qln.Qchan\<close>, declared outside the source files) the commands use the
  funding outpoint \<open>Op\<close>, \<open>State.Delta\<close> (an \<open>int32\<close>), \<open>CloseData.Closed\<close> and the
  key path \<open>KeyGen.Step\<close>.
\<close>

record OutPoint =
  Hash :: bytes
  Index :: "32 word"

record Qchan =
  Op :: OutPoint
  Delta :: "32 word"
  Closed :: bool
  KeyGen_Step :: "32 word list"

type_synonym MsgTx = bytes

record InProgress =
  PeerIdx :: "32 word"
  ChanIdx :: "32 word"
  Amt :: int
  InitSend :: int

text \<open>
  The global \<open>LNode\<close>.  \<open>RemoteCon\<close> is \<open>None\<close> for a nil connection, and
  \<open>Some None\<close> for a connection whose \<open>RemotePub\<close> is nil; a public key is kept
  as its compressed serialisation.  \<open>written\<close> lists the messages handed to
  \<open>RemoteCon.Write\<close> and \<open>pushed\<close> the transactions handed to
  \<open>BaseWallet.PushTx\<close>, oldest first.  \<open>others\<close> is everything else the functions
  outside the source files read and write (channel database, wallet).
\<close>

record 'x LnNode =
  RemoteCon :: "bytes option option"
  InProg :: InProgress
  written :: "bytes list"
  pushed :: "MsgTx list"
  others :: 'x

text \<open>
  The functions and constants the commands use that are not among the source files.
  One that can fail returns its error text on the left.  \<open>NextIdxForPeer\<close> and
  \<open>PushChannel\<close> may change the node; \<open>PushChannel\<close> and \<open>ReloadQchan\<close> work on the
  channel through its pointer and return its new value.  \<open>Write_result\<close> and
  \<open>PushTx_result\<close> are the outcome of the network write and of the broadcast.
\<close>

record 'x shell_env =
  MSGID_POINTREQ :: byte
  MSGID_CLOSEREQ :: byte
  PickUtxos :: "'x LnNode \<Rightarrow> int \<Rightarrow> string option"
  NextIdxForPeer :: "'x LnNode \<Rightarrow> bytes \<Rightarrow> (string + 32 word \<times> 32 word) \<times> 'x LnNode"
  Write_result :: "'x LnNode \<Rightarrow> bytes \<Rightarrow> string option"
  GetPeerIdx :: "'x LnNode \<Rightarrow> bytes \<Rightarrow> string + 32 word"
  GetQchanByIdx :: "'x LnNode \<Rightarrow> 32 word \<Rightarrow> 32 word \<Rightarrow> string + Qchan"
  ReloadQchan :: "'x LnNode \<Rightarrow> Qchan \<Rightarrow> string + Qchan"
  PushChannel :: "'x LnNode \<Rightarrow> Qchan \<Rightarrow> 32 word \<Rightarrow> string option \<times> Qchan \<times> 'x LnNode"
  SimpleCloseTx :: "Qchan \<Rightarrow> string + MsgTx"
  SignSimpleClose :: "'x LnNode \<Rightarrow> Qchan \<Rightarrow> MsgTx \<Rightarrow> string + bytes"
  OutPointToBytes :: "OutPoint \<Rightarrow> bytes"
  ElkSnd_AtIndex :: "Qchan \<Rightarrow> nat \<Rightarrow> string + bytes"
  ElkRcv_AtIndex :: "Qchan \<Rightarrow> nat \<Rightarrow> string + bytes"
  SignBreakTx :: "'x LnNode \<Rightarrow> Qchan \<Rightarrow> string + MsgTx"
  PushTx_result :: "'x LnNode \<Rightarrow> MsgTx \<Rightarrow> string option"

text \<open>\<open>LNode.RemoteCon == nil || LNode.RemoteCon.RemotePub == nil\<close>\<close>

definition not_connected :: "'x LnNode \<Rightarrow> bool" where
  "not_connected nd = (RemoteCon nd = None \<or> RemoteCon nd = Some None)"

definition RemotePub :: "'x LnNode \<Rightarrow> bytes" where
  "RemotePub nd = (case RemoteCon nd of Some (Some pub) \<Rightarrow> pub | _ \<Rightarrow> [])"

text \<open>
  \<open>LNode.RemoteCon.Write(msg)\<close>: the message is handed to the connection; the error
  is the network's.
\<close>

definition Write :: "'x shell_env \<Rightarrow> 'x LnNode \<Rightarrow> bytes \<Rightarrow> shell_error option \<times> 'x LnNode" where
  "Write V nd msg =
     (map_option ErrExternal (Write_result V nd msg), nd\<lparr>written := written nd @ [msg]\<rparr>)"

text \<open>\<open>LNode.BaseWallet.PushTx(tx)\<close>: the transaction is handed to the wallet for broadcast.\<close>

definition PushTx :: "'x shell_env \<Rightarrow> 'x LnNode \<Rightarrow> MsgTx \<Rightarrow> shell_error option \<times> 'x LnNode" where
  "PushTx V nd tx =
     (map_option ErrExternal (PushTx_result V nd tx), nd\<lparr>pushed := pushed nd @ [tx]\<rparr>)"

subsection \<open>FundChannel\<close>

text \<open>\<open>FundChannel\<close> (qlnshell.go, l. 12--68).\<close>

definition FundChannel ::
  "'x shell_env \<Rightarrow> 'x LnNode \<Rightarrow> string list \<Rightarrow> shell_error option \<times> 'x LnNode" where
  "FundChannel V nd args =
    (if length args < 2 then (Some ErrNeedArgs, nd)
     else if not_connected nd then (Some ErrNotConnected, nd)
     else if PeerIdx (InProg nd) \<noteq> 0 then (Some (ErrChannelNotDone (PeerIdx (InProg nd))), nd)
     else
     (case ParseInt32 (args ! 0) of
        Inl err \<Rightarrow> (Some err, nd)
      | Inr cCap \<Rightarrow>
     (case ParseInt32 (args ! 1) of
        Inl err \<Rightarrow> (Some err, nd)
      | Inr iSend \<Rightarrow>
     if iSend < 0 \<or> cCap < 0 then (Some ErrNegative, nd)
     else if cCap < 1000000 then (Some ErrMinCapacity, nd)
     else if iSend > cCap then (Some (ErrCantSend iSend cCap), nd)
     else
     (case PickUtxos V nd cCap of
        Some err \<Rightarrow> (Some (ErrExternal err), nd)
      | None \<Rightarrow>
     let peerArr = copy_go (replicate 33 0) (RemotePub nd) in
     (case NextIdxForPeer V nd peerArr of
        (Inl err, nd1) \<Rightarrow> (Some (ErrExternal err), nd1)
      | (Inr (peerIdx, cIdx), nd1) \<Rightarrow>
     let nd2 = nd1\<lparr>InProg := (InProg nd1)
                 \<lparr>ChanIdx := cIdx, PeerIdx := peerIdx, Amt := cCap, InitSend := iSend\<rparr>\<rparr>;
         msg = [MSGID_POINTREQ V]
     in Write V nd2 msg)))))"

subsection \<open>Push\<close>

text \<open>
  The loop of \<open>Push\<close> (l. 164--177); \<open>times\<close> counts down from a value that fits 32
  bits, so the loop is a recursion on a natural number (no round when \<open>times \<le> 0\<close>).
  The 25 ms sleep has no effect on the state.
\<close>

fun Push_loop ::
  "'x shell_env \<Rightarrow> nat \<Rightarrow> int \<Rightarrow> 'x LnNode \<Rightarrow> Qchan \<Rightarrow> shell_error option \<times> 'x LnNode" where
  "Push_loop V 0 amt nd qc = (None, nd)"
| "Push_loop V (Suc ntimes) amt nd qc =
     (case ReloadQchan V nd qc of
        Inl err \<Rightarrow> (Some (ErrExternal err), nd)
      | Inr qc1 \<Rightarrow>
     (case PushChannel V nd qc1 (word_of_int amt) of
        (Some err, qc2, nd1) \<Rightarrow> (Some (ErrExternal err), nd1)
      | (None, qc2, nd1) \<Rightarrow> Push_loop V ntimes amt nd1 qc2))"

text \<open>\<open>Push\<close> (l. 112--179).\<close>

definition Push ::
  "'x shell_env \<Rightarrow> 'x LnNode \<Rightarrow> string list \<Rightarrow> shell_error option \<times> 'x LnNode" where
  "Push V nd args =
    (if length args < 3 then (Some ErrNeedArgs, nd)
     else if not_connected nd then (Some ErrNotConnected, nd)
     else
     (case ParseInt32 (args ! 0) of
        Inl err \<Rightarrow> (Some err, nd)
      | Inr peerIdx64 \<Rightarrow>
     (case ParseInt32 (args ! 1) of
        Inl err \<Rightarrow> (Some err, nd)
      | Inr cIdx64 \<Rightarrow>
     (case ParseInt32 (args ! 2) of
        Inl err \<Rightarrow> (Some err, nd)
      | Inr amt \<Rightarrow>
     (case (if length args > 3 then ParseInt32 (args ! 3) else Inr 1) of
        Inl err \<Rightarrow> (Some err, nd)
      | Inr ntimes \<Rightarrow>
     if amt > 100000000 \<or> amt < 1 then (Some (ErrMaxPush amt), nd)
     else
     let peerIdx = (word_of_int peerIdx64 :: 32 word);
         cIdx = (word_of_int cIdx64 :: 32 word) in
     (case GetPeerIdx V nd (RemotePub nd) of
        Inl err \<Rightarrow> (Some (ErrExternal err), nd)
      | Inr currentPeerIdx \<Rightarrow>
     if peerIdx \<noteq> currentPeerIdx then (Some (ErrWrongPeer peerIdx currentPeerIdx), nd)
     else
     (case GetQchanByIdx V nd peerIdx cIdx of
        Inl err \<Rightarrow> (Some (ErrExternal err), nd)
      | Inr qc \<Rightarrow>
     if Closed qc then (Some (ErrChannelClosed peerIdx cIdx64), nd)
     else Push_loop V (nat ntimes) amt nd qc)))))))"

subsection \<open>CloseChannel\<close>

text \<open>
  \<open>CloseChannel\<close> (l. 182--239).  The error of the final \<open>Write\<close> is assigned and
  never read: the function returns \<open>nil\<close>.
\<close>

definition CloseChannel ::
  "'x shell_env \<Rightarrow> 'x LnNode \<Rightarrow> string list \<Rightarrow> shell_error option \<times> 'x LnNode" where
  "CloseChannel V nd args =
    (if not_connected nd then (Some ErrNotConnected, nd)
     else if length args < 2 then (Some ErrNeedArgs, nd)
     else
     (case ParseInt32 (args ! 0) of
        Inl err \<Rightarrow> (Some err, nd)
      | Inr peerIdx64 \<Rightarrow>
     (case ParseInt32 (args ! 1) of
        Inl err \<Rightarrow> (Some err, nd)
      | Inr cIdx64 \<Rightarrow>
     let peerIdx = (word_of_int peerIdx64 :: 32 word);
         cIdx = (word_of_int cIdx64 :: 32 word) in
     (case GetPeerIdx V nd (RemotePub nd) of
        Inl err \<Rightarrow> (Some (ErrExternal err), nd)
      | Inr currentPeerIdx \<Rightarrow>
     if peerIdx \<noteq> currentPeerIdx then (Some (ErrWrongPeer peerIdx currentPeerIdx), nd)
     else
     (case GetQchanByIdx V nd peerIdx cIdx of
        Inl err \<Rightarrow> (Some (ErrExternal err), nd)
      | Inr qc \<Rightarrow>
     (case SimpleCloseTx V qc of
        Inl err \<Rightarrow> (Some (ErrExternal err), nd)
      | Inr tx \<Rightarrow>
     (case SignSimpleClose V nd qc tx of
        Inl err \<Rightarrow> (Some (ErrExternal err), nd)
      | Inr sig \<Rightarrow>
     let opArr = OutPointToBytes V (Op qc);
         msg = [MSGID_CLOSEREQ V] @ opArr @ sig
     in (None, snd (Write V nd msg)))))))))"

text \<open>
  Modelled from the spec: \<open>lnutil.OutPointToBytes\<close> and \<open>LnNode.SignSimpleClose\<close> are
  not among the source files.  Section 6 of the specification gives the body of \<open>CLOSEREQ\<close> as
  \<open>outpoint(36) | sig(64)\<close>: the serialised outpoint is 36 bytes and a signature that
  \<open>SignSimpleClose\<close> returns is 64 bytes.
\<close>

definition CLOSEREQ_parts_ok :: "'x shell_env \<Rightarrow> 'x LnNode \<Rightarrow> bool" where
  "CLOSEREQ_parts_ok V nd =
     ((\<forall>p. length (OutPointToBytes V p) = 36) \<and>
      (\<forall>qc tx sig. SignSimpleClose V nd qc tx = Inr sig \<longrightarrow> length sig = 64))"

subsection \<open>BreakChannel\<close>

text \<open>
  \<open>BreakChannel\<close> (l. 245--285).  The two \<open>AtIndex(0)\<close> results are only printed.
  \<open>qc.State.Delta\<close> is set to 0 on the channel in memory before it is signed.
\<close>

definition BreakChannel ::
  "'x shell_env \<Rightarrow> 'x LnNode \<Rightarrow> string list \<Rightarrow> shell_error option \<times> 'x LnNode" where
  "BreakChannel V nd args =
    (if length args < 2 then (Some ErrNeedArgs, nd)
     else
     (case ParseInt32 (args ! 0) of
        Inl err \<Rightarrow> (Some err, nd)
      | Inr peerIdx \<Rightarrow>
     (case ParseInt32 (args ! 1) of
        Inl err \<Rightarrow> (Some err, nd)
      | Inr cIdx \<Rightarrow>
     (case GetQchanByIdx V nd (word_of_int peerIdx) (word_of_int cIdx) of
        Inl err \<Rightarrow> (Some (ErrExternal err), nd)
      | Inr qc \<Rightarrow>
     (case ElkSnd_AtIndex V qc 0 of
        Inl err \<Rightarrow> (Some (ErrExternal err), nd)
      | Inr z \<Rightarrow>
     (case ElkRcv_AtIndex V qc 0 of
        Inl err \<Rightarrow> (Some (ErrExternal err), nd)
      | Inr z \<Rightarrow>
     let qc1 = qc\<lparr>Delta := 0\<rparr> in
     (case SignBreakTx V nd qc1 of
        Inl err \<Rightarrow> (Some (ErrExternal err), nd)
      | Inr tx \<Rightarrow> PushTx V nd tx)))))))"

section \<open>Example data\<close>

text \<open>
  Modelled from the spec: the elkrem package is not among the source files, and the
  examples below need a receiver to run \<open>AddDesc\<close> and \<open>AddMsg\<close> on.  This one
  follows section 4.1 of the specification: \<open>addNext\<close> fails if the hash is not consistent
  with the previously inserted one and otherwise stores it and advances \<open>upTo\<close>;
  \<open>toBytes\<close> and \<open>fromBytes\<close> serialise \<open>upTo\<close> and the retained hash.  The
  hash tree is replaced by a chain: a hash is consistent when \<open>chain_parent\<close> maps it to
  its predecessor.  No theorem about the store depends on it; it only instantiates the
  parameter in closed examples.
\<close>

definition chain_parent :: "bytes \<Rightarrow> bytes" where
  "chain_parent h = map (\<lambda>b. b + 1) h"

type_synonym chain_receiver = "(64 word \<times> bytes) option"

fun chain_AddNext :: "chain_receiver \<Rightarrow> bytes \<Rightarrow> sorceror_error option \<times> chain_receiver" where
  "chain_AddNext None h = (None, Some (0, h))"
| "chain_AddNext (Some (n, prev)) h =
     (if chain_parent h = prev then (None, Some (n + 1, h))
      else (Some (ErrElkrem ''hash does not match''), Some (n, prev)))"

fun chain_UpTo :: "chain_receiver \<Rightarrow> 64 word" where
  "chain_UpTo None = 0"
| "chain_UpTo (Some (n, prev)) = n"

fun chain_ToBytes :: "chain_receiver \<Rightarrow> sorceror_error + bytes" where
  "chain_ToBytes None = Inr []"
| "chain_ToBytes (Some (n, prev)) = Inr (be_bytes 8 n @ prev)"

fun chain_FromBytes :: "bytes option \<Rightarrow> sorceror_error + chain_receiver" where
  "chain_FromBytes None = Inl (ErrElkrem ''no receiver'')"
| "chain_FromBytes (Some b) =
     (if length b < 8 then Inl (ErrElkrem ''short receiver'')
      else Inr (Some (of_nat (be_nat (take 8 b)), drop 8 b)))"

definition chain_elkrem :: "chain_receiver elkrem_pkg" where
  "chain_elkrem =
     \<lparr>ElkremReceiverFromBytes = chain_FromBytes, AddNext = chain_AddNext,
      UpTo = chain_UpTo, ToBytes = chain_ToBytes, elk_zero_value = None\<rparr>"

text \<open>
  A descriptor for one channel, the store after \<open>AddDesc\<close> of it on the empty store,
  and messages for that channel.  \<open>ex_txid t\<close> is a 32-byte txid whose leading 8 bytes do
  not depend on \<open>t\<close>; \<open>ex_msg t e s\<close> carries its first 16 bytes, the hash
  \<open>replicate 32 e\<close> and the signature \<open>replicate 64 s\<close>.
\<close>

definition ex_pkh :: bytes where
  "ex_pkh = replicate 20 1"

definition ex_desc :: SorceDescriptor where
  "ex_desc = \<lparr>sd_DestPKHScript = ex_pkh, sd_ElkZero = replicate 32 5, sd_bytes = replicate 128 2\<rparr>"

definition ex_db :: SorceDB where
  "ex_db =
     \<lparr>pkm = Some [([0, 0, 0, 0], ex_pkh)],
      cda = Some [(ex_pkh,
               [(KEYStatic, replicate 96 2),
                (KEYElkRcv, [0, 0, 0, 0, 0, 0, 0, 0] @ replicate 32 5),
                (KEYIdx, [0, 0, 0, 0])])],
      txi = Some []\<rparr>"

text \<open>The store after the first and after the second of two messages for that channel.\<close>

definition ex_db1 :: SorceDB where
  "ex_db1 = ex_db
     \<lparr>cda := Some [(ex_pkh,
               [(KEYStatic, replicate 96 2),
                (KEYElkRcv, [0, 0, 0, 0, 0, 0, 0, 1] @ replicate 32 4),
                (KEYIdx, [0, 0, 0, 0])])],
      txi := Some [(replicate 8 3, [0, 0, 0, 0] @ [0, 0, 0, 0, 0, 1] @ replicate 64 7)]\<rparr>"

definition ex_db2 :: SorceDB where
  "ex_db2 = ex_db
     \<lparr>cda := Some [(ex_pkh,
               [(KEYStatic, replicate 96 2),
                (KEYElkRcv, [0, 0, 0, 0, 0, 0, 0, 2] @ replicate 32 3),
                (KEYIdx, [0, 0, 0, 0])])],
      txi := Some [(replicate 8 3, [0, 0, 0, 0] @ [0, 0, 0, 0, 0, 2] @ replicate 64 8)]\<rparr>"

definition ex_txid :: "byte \<Rightarrow> bytes" where
  "ex_txid t = replicate 8 3 @ replicate 24 t"

definition ex_msg :: "byte \<Rightarrow> byte \<Rightarrow> byte \<Rightarrow> StateMsg" where
  "ex_msg t e s =
     \<lparr>DestPKHScript = ex_pkh, Txid = take 16 (ex_txid t), Elk = replicate 32 e,
      Sig = replicate 64 s\<rparr>"

text \<open>
  A node connected to a peer, and an environment in which every outside function
  succeeds, except that the network write fails.  Channel (1, 1) is closed, channel
  (1, 2) is open.
\<close>

definition ex_qchan :: Qchan where
  "ex_qchan =
     \<lparr>Op = \<lparr>Hash = replicate 32 6, Index = 1\<rparr>, Delta = 5, Closed = True,
      KeyGen_Step = [0, 0, 0, 1, 1]\<rparr>"

definition ex_qchan_open :: Qchan where
  "ex_qchan_open =
     \<lparr>Op = \<lparr>Hash = replicate 32 7, Index = 0\<rparr>, Delta = 0, Closed = False,
      KeyGen_Step = [0, 0, 0, 1, 2]\<rparr>"

definition ex_env :: "unit shell_env" where
  "ex_env =
     \<lparr>MSGID_POINTREQ = 0x30, MSGID_CLOSEREQ = 0x40,
      PickUtxos = (\<lambda>nd c. None),
      NextIdxForPeer = (\<lambda>nd p. (Inr (1, 1), nd)),
      Write_result = (\<lambda>nd m. Some ''connection lost''),
      GetPeerIdx = (\<lambda>nd p. Inr 1),
      GetQchanByIdx = (\<lambda>nd p c. if p = 1 \<and> c = 1 then Inr ex_qchan
                                else if p = 1 \<and> c = 2 then Inr ex_qchan_open
                                else Inl ''no such channel''),
      ReloadQchan = (\<lambda>nd q. Inr q),
      PushChannel = (\<lambda>nd q a. (None, q, nd)),
      SimpleCloseTx = (\<lambda>q. Inr [1, 2, 3]),
      SignSimpleClose = (\<lambda>nd q t. Inr (replicate 64 9)),
      OutPointToBytes = (\<lambda>op. take 32 (Hash op @ replicate 32 0) @ U32tB (Index op)),
      ElkSnd_AtIndex = (\<lambda>q i. Inr (replicate 32 0)),
      ElkRcv_AtIndex = (\<lambda>q i. Inr (replicate 32 0)),
      SignBreakTx = (\<lambda>nd q. Inr [4, 5, 6]),
      PushTx_result = (\<lambda>nd t. None)\<rparr>"

definition ex_node :: "unit LnNode" where
  "ex_node =
     \<lparr>RemoteCon = Some (Some (replicate 33 2)),
      InProg = \<lparr>PeerIdx = 0, ChanIdx = 0, Amt = 0, InitSend = 0\<rparr>,
      written = [], pushed = [], others = ()\<rparr>"

section \<open>Properties of the encodings\<close>

lemma length_be_bytes [simp]: "length (be_bytes n w) = n"
  by (induction n) simp_all

lemma drop_be_bytes: "drop k (be_bytes (k + n) w) = be_bytes n w"
  by (induction k) simp_all

lemma be_bytes_4:
  "be_bytes 4 w = [ucast (drop_bit 24 w), ucast (drop_bit 16 w), ucast (drop_bit 8 w), ucast w]"
  by (simp add: eval_nat_numeral)

lemma be_bytes_6:
  "be_bytes 6 w = [ucast (drop_bit 40 w), ucast (drop_bit 32 w), ucast (drop_bit 24 w),
     ucast (drop_bit 16 w), ucast (drop_bit 8 w), ucast w]"
  by (simp add: eval_nat_numeral)

lemma be_bytes_8:
  "be_bytes 8 w = [ucast (drop_bit 56 w), ucast (drop_bit 48 w), ucast (drop_bit 40 w),
     ucast (drop_bit 32 w), ucast (drop_bit 24 w), ucast (drop_bit 16 w), ucast (drop_bit 8 w),
     ucast w]"
  by (simp add: eval_nat_numeral)

lemma be_nat_foldl:
  "foldl (\<lambda>acc b. 256 * acc + unat b) a bs =
     a * 256 ^ length bs + foldl (\<lambda>acc b. 256 * acc + unat b) 0 bs"
  for bs :: bytes
proof (induction bs arbitrary: a)
  case Nil
  show ?case by simp
next
  case (Cons b bs)
  define f where "f = (\<lambda>acc (b::byte). 256 * acc + unat b)"
  have 1: "foldl f (256 * a + unat b) bs = (256 * a + unat b) * 256 ^ length bs + foldl f 0 bs"
    unfolding f_def by (rule Cons.IH)
  have 2: "foldl f (unat b) bs = unat b * 256 ^ length bs + foldl f 0 bs"
    unfolding f_def by (rule Cons.IH)
  have "foldl f a (b # bs) = a * 256 ^ length (b # bs) + foldl f 0 (b # bs)"
    using 1 2 by (simp add: f_def algebra_simps)
  then show ?case unfolding f_def .
qed

lemma be_nat_Cons: "be_nat (b # bs) = unat b * 256 ^ length bs + be_nat bs"
  using be_nat_foldl [of "unat b" bs] by (simp add: be_nat_def)

lemma unat_byte_of_word:
  "unat (ucast (drop_bit (8 * n) w) :: byte) = (unat w div 2 ^ (8 * n)) mod 256"
proof -
  have "unat (ucast (drop_bit (8 * n) w) :: byte) = take_bit 8 (drop_bit (8 * n) (unat w))"
    by (simp only: unsigned_ucast_eq unat_drop_bit_eq) simp
  then show ?thesis
    by (simp add: take_bit_eq_mod drop_bit_eq_div)
qed

text \<open>
  Read back as a big-endian number, the \<open>n\<close> bytes of \<open>be_bytes n w\<close> are the value of
  \<open>w\<close> modulo \<open>256 ^ n\<close>: they are the low \<open>n\<close> bytes.
\<close>

lemma be_nat_be_bytes: "be_nat (be_bytes n w) = unat w mod 2 ^ (8 * n)"
proof (induction n)
  case 0
  show ?case by (simp add: be_nat_def)
next
  case (Suc n)
  have "(256::nat) ^ n = 2 ^ (8 * n)"
    by (simp add: power_mult)
  moreover have "unat w mod (2 ^ (8 * n) * 256) =
      2 ^ (8 * n) * (unat w div 2 ^ (8 * n) mod 256) + unat w mod 2 ^ (8 * n)"
    by (rule mod_mult2_eq)
  moreover have "(2::nat) ^ (8 * Suc n) = 2 ^ (8 * n) * 256"
    by (simp add: power_add)
  ultimately show ?case
    by (simp add: be_nat_Cons unat_byte_of_word Suc.IH)
qed

lemma length_copy_go [simp]: "length (copy_go dst src) = length dst"
  by (simp add: copy_go_def min_def)

lemma length_I64tB [simp]: "length (I64tB w) = 8"
  by (simp add: I64tB_def)

lemma length_U32tB [simp]: "length (U32tB w) = 4"
  by (simp add: U32tB_def)

lemma I64tB_low6: "drop 2 (I64tB w) = be_bytes 6 w"
  using drop_be_bytes [of 2 6 w] by (simp add: I64tB_def)

lemma length_sigIdx [simp]: "length (sigIdx c s sig) = 74"
  by (simp add: sigIdx_def Let_def)

lemma sigIdx_layout:
  assumes "length cIdxBytes = 4" and "length stateNumBytes = 8" and "length sig = 64"
  shows "sigIdx cIdxBytes stateNumBytes sig = cIdxBytes @ drop 2 stateNumBytes @ sig"
  using assms by (simp add: sigIdx_def copy_go_def Let_def)

section \<open>Properties of the watchtower store\<close>

subsection \<open>Transactions\<close>

lemma Update_error_keeps_db: "fst (Update db fn) \<noteq> None \<Longrightarrow> snd (Update db fn) = db"
  by (auto simp: Update_def split: prod.splits option.splits)

lemma Update_success: "Update db fn = (None, db') \<Longrightarrow> fn db = (None, db')"
  by (auto simp: Update_def split: prod.splits option.splits)

lemma AddMsg_error_rolls_back: "fst (AddMsg E db sm) \<noteq> None \<Longrightarrow> snd (AddMsg E db sm) = db"
  unfolding AddMsg_def by (rule Update_error_keeps_db)

lemma AddDesc_error_rolls_back: "fst (AddDesc E db sd) \<noteq> None \<Longrightarrow> snd (AddDesc E db sd) = db"
  unfolding AddDesc_def by (rule Update_error_keeps_db)

lemma Put_Inr: "Put b k v = Inr b' \<Longrightarrow> b' = AList.update k v b \<and> k \<noteq> []"
  by (auto simp: Put_def split: if_splits)

lemma Get_update: "Get (AList.update k v b) k' = (if k' = k then Some v else Get b k')"
  by (simp add: Get_def update_conv')

lemma KEY_distinct:
  "KEYIdx \<noteq> KEYElkRcv" "KEYIdx \<noteq> KEYStatic" "KEYElkRcv \<noteq> KEYStatic"
  by (simp_all add: KEYIdx_def KEYElkRcv_def KEYStatic_def)

lemma AddMsg_fn_success:
  assumes "AddMsg_fn E sm btx = (None, btx')"
  shows "\<exists>allChanbkt cbkt elkr0 elkr elkBytes cbkt1 cIdxBytes txidbkt txidbkt1.
     cda btx = Some allChanbkt \<and>
     SubBucket allChanbkt (DestPKHScript sm) = Some cbkt \<and>
     ElkremReceiverFromBytes E (Get cbkt KEYElkRcv) = Inr elkr0 \<and>
     AddNext E elkr0 (Elk sm) = (None, elkr) \<and>
     ToBytes E elkr = Inr elkBytes \<and>
     Put cbkt KEYElkRcv elkBytes = Inr cbkt1 \<and>
     Get cbkt1 KEYIdx = Some cIdxBytes \<and>
     txi btx = Some txidbkt \<and>
     Put txidbkt (take 8 (Txid sm)) (sigIdx cIdxBytes (I64tB (UpTo E elkr)) (Sig sm)) = Inr txidbkt1 \<and>
     btx' = btx\<lparr>cda := Some (AList.update (DestPKHScript sm) cbkt1 allChanbkt), txi := Some txidbkt1\<rparr>"
  using assms unfolding AddMsg_fn_def Let_def
  by (simp split: option.splits sum.splits prod.splits)

subsection \<open>The index invariant\<close>

lemma idx_ok_length:
  assumes "idx_ok db" and "stored_idx db pkh = Some c"
  shows "length c = 4"
proof -
  from assms(2) obtain allb cbkt where a: "cda db = Some allb" and m: "map_of allb pkh = Some cbkt"
    and g: "Get cbkt KEYIdx = Some c"
    by (auto simp: stored_idx_def channel_bucket_def SubBucket_def split: option.splits)
  from m have "(pkh, cbkt) \<in> set allb" by (rule map_of_SomeD)
  with assms(1) a g show ?thesis
    by (auto simp: idx_ok_def list_all_iff)
qed

lemma set_update_subset: "set (AList.update k v al) \<subseteq> insert (k, v) (set al)"
  by (induction al) auto

lemma idx_ok_SorceDB_empty: "idx_ok SorceDB_empty"
  by (simp add: idx_ok_def SorceDB_empty_def)

lemma idx_ok_update:
  assumes "idx_ok db" and "cda db = Some allb"
    and "case Get cbkt KEYIdx of None \<Rightarrow> True | Some c \<Rightarrow> length c = 4"
  shows "idx_ok (db\<lparr>cda := Some (AList.update pkh cbkt allb)\<rparr>)"
  using assms set_update_subset [of pkh cbkt allb]
  by (auto simp: idx_ok_def list_all_iff)

lemma idx_ok_txi [simp]: "idx_ok (db\<lparr>txi := t\<rparr>) = idx_ok db"
  by (simp add: idx_ok_def)

lemma idx_ok_pkm [simp]: "idx_ok (db\<lparr>pkm := t\<rparr>) = idx_ok db"
  by (simp add: idx_ok_def)

lemma idx_ok_AddMsg:
  assumes "idx_ok db"
  shows "idx_ok (snd (AddMsg E db sm))"
proof (cases "fst (AddMsg E db sm)")
  case (Some err)
  then have "snd (AddMsg E db sm) = db"
    by (simp add: AddMsg_error_rolls_back)
  with assms show ?thesis by simp
next
  case None
  then have "AddMsg E db sm = (None, snd (AddMsg E db sm))"
    by (simp add: prod_eq_iff)
  then have "AddMsg_fn E sm db = (None, snd (AddMsg E db sm))"
    unfolding AddMsg_def by (rule Update_success)
  from AddMsg_fn_success [OF this] obtain allChanbkt cbkt elkBytes cbkt1 txidbkt1 where
    a: "cda db = Some allChanbkt" and
    b: "SubBucket allChanbkt (DestPKHScript sm) = Some cbkt" and
    p: "Put cbkt KEYElkRcv elkBytes = Inr cbkt1" and
    d: "snd (AddMsg E db sm) =
          db\<lparr>cda := Some (AList.update (DestPKHScript sm) cbkt1 allChanbkt), txi := Some txidbkt1\<rparr>"
    by blast
  from p have g: "Get cbkt1 KEYIdx = Get cbkt KEYIdx"
    by (auto dest!: Put_Inr simp: Get_update KEY_distinct)
  from b have "(DestPKHScript sm, cbkt) \<in> set allChanbkt"
    by (auto simp: SubBucket_def dest: map_of_SomeD)
  with assms a have "case Get cbkt KEYIdx of None \<Rightarrow> True | Some c \<Rightarrow> length c = 4"
    by (auto simp: idx_ok_def list_all_iff)
  with g have "case Get cbkt1 KEYIdx of None \<Rightarrow> True | Some c \<Rightarrow> length c = 4"
    by simp
  from idx_ok_update [OF assms a this] d show ?thesis by simp
qed

lemma AddDesc_fn_success:
  assumes "AddDesc_fn E sd btx = (None, btx')"
  shows "\<exists>mbkt allChanbkt allChanbkt1 cbkt2 cbkt3 mbkt1.
     pkm btx = Some mbkt \<and> cda btx = Some allChanbkt \<and>
     Put cbkt2 KEYIdx (U32tB (of_nat (length mbkt))) = Inr cbkt3 \<and>
     btx' = btx\<lparr>cda := Some (AList.update (sd_DestPKHScript sd) cbkt3 allChanbkt1),
                pkm := Some mbkt1\<rparr> \<and>
     CreateBucket allChanbkt (sd_DestPKHScript sd) = Inr allChanbkt1"
  using assms unfolding AddDesc_fn_def Let_def
  by (fastforce split: option.splits sum.splits prod.splits if_splits)

lemma idx_ok_AddDesc:
  assumes "idx_ok db"
  shows "idx_ok (snd (AddDesc E db sd))"
proof (cases "fst (AddDesc E db sd)")
  case (Some err)
  then have "snd (AddDesc E db sd) = db"
    by (simp add: AddDesc_error_rolls_back)
  with assms show ?thesis by simp
next
  case None
  then have "AddDesc E db sd = (None, snd (AddDesc E db sd))"
    by (simp add: prod_eq_iff)
  then have "AddDesc_fn E sd db = (None, snd (AddDesc E db sd))"
    unfolding AddDesc_def by (rule Update_success)
  from AddDesc_fn_success [OF this] obtain mbkt allChanbkt allChanbkt1 cbkt2 cbkt3 mbkt1 where
    m: "pkm db = Some mbkt" and
    a: "cda db = Some allChanbkt" and
    p: "Put cbkt2 KEYIdx (U32tB (of_nat (length mbkt))) = Inr cbkt3" and
    d: "snd (AddDesc E db sd) =
          db\<lparr>cda := Some (AList.update (sd_DestPKHScript sd) cbkt3 allChanbkt1), pkm := Some mbkt1\<rparr>" and
    c: "CreateBucket allChanbkt (sd_DestPKHScript sd) = Inr allChanbkt1"
    by blast
  from c have c1: "allChanbkt1 = AList.update (sd_DestPKHScript sd) [] allChanbkt"
    by (auto simp: CreateBucket_def split: if_splits)
  from p have g: "Get cbkt3 KEYIdx = Some (U32tB (of_nat (length mbkt)))"
    by (auto dest!: Put_Inr simp: Get_update)
  have e: "case Get ([]::bucket) KEYIdx of None \<Rightarrow> True | Some c \<Rightarrow> length c = 4"
    by (simp add: Get_def)
  have 1: "idx_ok (db\<lparr>cda := Some allChanbkt1\<rparr>)"
    unfolding c1 by (rule idx_ok_update [OF assms a e])
  have 2: "idx_ok (db\<lparr>cda := Some allChanbkt1\<rparr>\<lparr>cda := Some (AList.update (sd_DestPKHScript sd) cbkt3 allChanbkt1)\<rparr>)"
    by (rule idx_ok_update [OF 1]) (simp_all add: g)
  with d show ?thesis by simp
qed

lemma reachable_idx_ok: "reachable E db \<Longrightarrow> idx_ok db"
  by (induction rule: reachable.induct)
    (simp_all add: idx_ok_SorceDB_empty idx_ok_AddDesc idx_ok_AddMsg)

subsection \<open>The example store\<close>

lemma ex_db_AddDesc: "AddDesc chain_elkrem SorceDB_empty ex_desc = (None, ex_db)"
  by (simp add: AddDesc_def Update_def AddDesc_fn_def SorceDB_empty_def ex_desc_def ex_db_def
      CreateBucket_def Put_def chain_elkrem_def U32tB_def be_bytes_4 be_bytes_8
      KEYElkRcv_def KEYStatic_def KEYIdx_def ex_pkh_def Let_def)

lemma ex_db1_AddMsg: "AddMsg chain_elkrem ex_db (ex_msg 0 4 7) = (None, ex_db1)"
  by (simp add: AddMsg_def Update_def AddMsg_fn_def ex_db_def ex_db1_def ex_msg_def ex_txid_def
      ex_pkh_def chain_elkrem_def SubBucket_def Get_def Put_def KEYElkRcv_def KEYStatic_def
      KEYIdx_def be_bytes_8 be_nat_def chain_parent_def sigIdx_def copy_go_def I64tB_def)

lemma reachable_ex_db: "reachable chain_elkrem ex_db"
  using reach_AddDesc [OF reach_empty, of chain_elkrem ex_desc] by (simp add: ex_db_AddDesc)

subsection \<open>CheckTxids\<close>

text \<open>
  Claim C7.  For every input slice of txids, \<open>CheckTxids\<close> leaves the watchtower store
  unchanged: whatever it returns (hits, no hits, or the panic on a missing txid
  bucket), the store after the call is the store before it, and the function run
  inside the read transaction hands its working copy back as it got it, so none of the
  three buckets is written.
\<close>

theorem CheckTxids_store_unchanged:
  "snd (CheckTxids db inTxids) = db \<and> snd (CheckTxids_fn inTxids db) = db"
  by (simp add: CheckTxids_def View_def CheckTxids_fn_def)

lemma CheckTxids_loop_blank:
  assumes "CheckTxids_loop bkt txids acc = Inr hits"
    and "\<forall>sm \<in> set acc. DestPKHScript sm = replicate 20 0 \<and> Elk sm = replicate 32 0 \<and> Sig sm = replicate 64 0"
  shows "\<forall>sm \<in> set hits. DestPKHScript sm = replicate 20 0 \<and> Elk sm = replicate 32 0 \<and> Sig sm = replicate 64 0"
  using assms
proof (induction txids arbitrary: acc)
  case Nil
  then show ?case by simp
next
  case (Cons txid rest)
  show ?case
  proof (cases bkt)
    case None
    with Cons.prems show ?thesis by simp
  next
    case (Some b)
    show ?thesis
    proof (cases "Get b (take 8 txid)")
      case None
      with Some Cons.prems have "CheckTxids_loop bkt rest acc = Inr hits" by simp
      from Cons.IH [OF this Cons.prems(2)] show ?thesis .
    next
      case (Some idxsig)
      let ?sm = "StateMsg_zero\<lparr>Txid := copy_go (Txid StateMsg_zero) (take 16 txid)\<rparr>"
      from Some \<open>bkt = Some b\<close> Cons.prems
      have l: "CheckTxids_loop bkt rest (acc @ [?sm]) = Inr hits" by (simp add: Let_def)
      have "\<forall>sm \<in> set (acc @ [?sm]). DestPKHScript sm = replicate 20 0 \<and> Elk sm = replicate 32 0 \<and> Sig sm = replicate 64 0"
        using Cons.prems(2) by (simp add: StateMsg_zero_def)
      from Cons.IH [OF l this] show ?thesis .
    qed
  qed
qed

lemma CheckTxids_hits_blank:
  assumes "fst (CheckTxids db inTxids) = Inr hits" and "sm \<in> set hits"
  shows "DestPKHScript sm = replicate 20 0 \<and> Elk sm = replicate 32 0 \<and> Sig sm = replicate 64 0"
proof -
  from assms(1) have "CheckTxids_loop (txi db) inTxids [] = Inr hits"
    by (simp add: CheckTxids_def View_def CheckTxids_fn_def)
  from CheckTxids_loop_blank [OF this] assms(2) show ?thesis by simp
qed

text \<open>
  Claim C6 (the code departs from it).  The claim: for every txid of the input that
  matches a stored record, \<open>CheckTxids\<close> returns a message with at least the recorded
  channel index, state number and signature.  The code at a store holding, under the
  key of \<open>ex_txid 0\<close>, the record of channel index 0, state number 1 and a signature of
  64 bytes \<open>7\<close>: the message returned for \<open>ex_txid 0\<close> has the first 16 bytes of the
  txid and zeroes everywhere else; nothing of the record is in it.
\<close>

theorem CheckTxids_hit_returns_blank_message:
  "txid_record ex_db1 (take 8 (ex_txid 0)) =
     Some ([0, 0, 0, 0] @ [0, 0, 0, 0, 0, 1] @ replicate 64 7) \<and>
   CheckTxids ex_db1 [ex_txid 0] =
     (Inr [\<lparr>DestPKHScript = replicate 20 0, Txid = replicate 8 3 @ replicate 8 0,
            Elk = replicate 32 0, Sig = replicate 64 0\<rparr>], ex_db1)"
  by (simp add: txid_record_def CheckTxids_def View_def CheckTxids_fn_def ex_db1_def ex_txid_def
      Get_def copy_go_def StateMsg_zero_def)

subsection \<open>AddMsg\<close>

text \<open>
  Claim C1.  If inserting the message's hash into the channel's stored elkrem receiver
  fails, \<open>AddMsg\<close> returns that error and the store after the call is the store before
  it: the stored receiver is the same and no txid record was written.
\<close>

theorem AddMsg_elkrem_failure_aborts:
  assumes "channel_bucket db (DestPKHScript sm) = Some cbkt"
    and "ElkremReceiverFromBytes E (Get cbkt KEYElkRcv) = Inr elkr0"
    and "fst (AddNext E elkr0 (Elk sm)) = Some err"
  shows "AddMsg E db sm = (Some err, db)"
  using assms
  by (auto simp: AddMsg_def Update_def AddMsg_fn_def channel_bucket_def
      split: option.splits prod.splits sum.splits)

theorem AddMsg_elkrem_failure_aborts_witness:
  "channel_bucket ex_db (DestPKHScript (ex_msg 0 9 7)) =
     Some [(KEYStatic, replicate 96 2), (KEYElkRcv, [0, 0, 0, 0, 0, 0, 0, 0] @ replicate 32 5),
           (KEYIdx, [0, 0, 0, 0])] \<and>
   AddMsg chain_elkrem ex_db (ex_msg 0 9 7) = (Some (ErrElkrem ''hash does not match''), ex_db) \<and>
   stored_elk ex_db ex_pkh = Some ([0, 0, 0, 0, 0, 0, 0, 0] @ replicate 32 5) \<and>
   txid_record ex_db (take 8 (ex_txid 0)) = None"
proof -
  let ?cbkt = "[(KEYStatic, replicate 96 2), (KEYElkRcv, [0, 0, 0, 0, 0, 0, 0, 0] @ replicate 32 5),
           (KEYIdx, [0, 0, 0, 0::byte])]"
  have c: "channel_bucket ex_db (DestPKHScript (ex_msg 0 9 7)) = Some ?cbkt"
    by (simp add: channel_bucket_def ex_db_def ex_msg_def SubBucket_def)
  have f: "ElkremReceiverFromBytes chain_elkrem (Get ?cbkt KEYElkRcv) = Inr (Some (0, replicate 32 5))"
    by (simp add: chain_elkrem_def Get_def KEYElkRcv_def KEYStatic_def be_nat_def)
  have n: "fst (AddNext chain_elkrem (Some (0, replicate 32 5)) (Elk (ex_msg 0 9 7))) =
      Some (ErrElkrem ''hash does not match'')"
    by (simp add: chain_elkrem_def ex_msg_def chain_parent_def)
  have s: "stored_elk ex_db ex_pkh = Some ([0, 0, 0, 0, 0, 0, 0, 0] @ replicate 32 5)"
    by (simp add: stored_elk_def channel_bucket_def ex_db_def SubBucket_def Get_def
        KEYElkRcv_def KEYStatic_def)
  have t: "txid_record ex_db (take 8 (ex_txid 0)) = None"
    by (simp add: txid_record_def ex_db_def Get_def)
  from AddMsg_elkrem_failure_aborts [OF c f n] c s t show ?thesis by simp
qed

lemma AddMsg_record_layout_idx_ok:
  assumes ok: "AddMsg E db sm = (None, db')"
    and inv: "idx_ok db"
    and sig: "length (Sig sm) = 64"
  shows "\<exists>cIdxBytes elkr0.
     stored_idx db (DestPKHScript sm) = Some cIdxBytes \<and>
     length cIdxBytes = 4 \<and>
     ElkremReceiverFromBytes E (stored_elk db (DestPKHScript sm)) = Inr elkr0 \<and>
     txid_record db' (take 8 (Txid sm)) =
       Some (cIdxBytes @ be_bytes 6 (UpTo E (snd (AddNext E elkr0 (Elk sm)))) @ Sig sm) \<and>
     length (cIdxBytes @ be_bytes 6 (UpTo E (snd (AddNext E elkr0 (Elk sm)))) @ Sig sm) = 74"
proof -
  from ok have "AddMsg_fn E sm db = (None, db')"
    unfolding AddMsg_def by (rule Update_success)
  from AddMsg_fn_success [OF this] obtain allChanbkt cbkt elkr0 elkr elkBytes cbkt1 cIdxBytes
      txidbkt txidbkt1 where
    a: "cda db = Some allChanbkt" and
    b: "SubBucket allChanbkt (DestPKHScript sm) = Some cbkt" and
    f: "ElkremReceiverFromBytes E (Get cbkt KEYElkRcv) = Inr elkr0" and
    n: "AddNext E elkr0 (Elk sm) = (None, elkr)" and
    p: "Put cbkt KEYElkRcv elkBytes = Inr cbkt1" and
    i: "Get cbkt1 KEYIdx = Some cIdxBytes" and
    t: "txi db = Some txidbkt" and
    q: "Put txidbkt (take 8 (Txid sm)) (sigIdx cIdxBytes (I64tB (UpTo E elkr)) (Sig sm)) = Inr txidbkt1" and
    d: "db' = db\<lparr>cda := Some (AList.update (DestPKHScript sm) cbkt1 allChanbkt), txi := Some txidbkt1\<rparr>"
    by blast
  from p i have i0: "Get cbkt KEYIdx = Some cIdxBytes"
    by (auto dest!: Put_Inr simp: Get_update KEY_distinct)
  with a b have si: "stored_idx db (DestPKHScript sm) = Some cIdxBytes"
    by (simp add: stored_idx_def channel_bucket_def)
  with inv have len: "length cIdxBytes = 4" by (rule idx_ok_length)
  from a b have se: "stored_elk db (DestPKHScript sm) = Get cbkt KEYElkRcv"
    by (simp add: stored_elk_def channel_bucket_def)
  have lay: "sigIdx cIdxBytes (I64tB (UpTo E elkr)) (Sig sm) = cIdxBytes @ be_bytes 6 (UpTo E elkr) @ Sig sm"
    using len sig by (simp add: sigIdx_layout I64tB_low6)
  from q d have "txid_record db' (take 8 (Txid sm)) = Some (sigIdx cIdxBytes (I64tB (UpTo E elkr)) (Sig sm))"
    by (auto dest!: Put_Inr simp: txid_record_def Get_update)
  with lay n si len se f sig show ?thesis by simp
qed

text \<open>
  Claim C4.  For every successful \<open>AddMsg\<close> call (on a store that \<open>AddDesc\<close> and
  \<open>AddMsg\<close> produced, with a 64-byte signature in the message), the record written
  under the truncated txid key is 74 bytes: the channel's 4-byte index, then the low 6
  bytes, big-endian, of the receiver's \<open>UpTo\<close> after the insertion, then the signature.
\<close>

theorem AddMsg_record_layout:
  assumes "AddMsg E db sm = (None, db')"
    and "reachable E db"
    and "length (Sig sm) = 64"
  shows "\<exists>cIdxBytes elkr0.
     stored_idx db (DestPKHScript sm) = Some cIdxBytes \<and>
     length cIdxBytes = 4 \<and>
     ElkremReceiverFromBytes E (stored_elk db (DestPKHScript sm)) = Inr elkr0 \<and>
     txid_record db' (take 8 (Txid sm)) =
       Some (cIdxBytes @ be_bytes 6 (UpTo E (snd (AddNext E elkr0 (Elk sm)))) @ Sig sm) \<and>
     length (cIdxBytes @ be_bytes 6 (UpTo E (snd (AddNext E elkr0 (Elk sm)))) @ Sig sm) = 74"
  using assms by (intro AddMsg_record_layout_idx_ok reachable_idx_ok)

theorem AddMsg_record_layout_witness:
  "AddMsg chain_elkrem ex_db (ex_msg 0 4 7) = (None, ex_db1) \<and> reachable chain_elkrem ex_db \<and>
   length (Sig (ex_msg 0 4 7)) = 64 \<and>
   txid_record ex_db1 (take 8 (Txid (ex_msg 0 4 7))) =
     Some ([0, 0, 0, 0] @ [0, 0, 0, 0, 0, 1] @ replicate 64 7)"
proof -
  have sg: "length (Sig (ex_msg 0 4 7)) = 64"
    by (simp add: ex_msg_def)
  have r: "txid_record ex_db1 (take 8 (Txid (ex_msg 0 4 7))) =
     Some ([0, 0, 0, 0] @ [0, 0, 0, 0, 0, 1] @ replicate 64 7)"
    by (simp add: txid_record_def ex_db1_def ex_msg_def ex_txid_def Get_def)
  from AddMsg_record_layout [OF ex_db1_AddMsg reachable_ex_db sg] ex_db1_AddMsg reachable_ex_db sg r
  show ?thesis by simp
qed

lemma length_update:
  "length (AList.update k v al) = (if k \<in> fst ` set al then length al else Suc (length al))"
  by (induction al) auto

lemma AddMsg_txid_bucket:
  assumes "AddMsg E db sm = (None, db')"
  shows "\<exists>t r. txi db = Some t \<and> length r = 74 \<and>
           txi db' = Some (AList.update (take 8 (Txid sm)) r t)"
proof -
  from assms have "AddMsg_fn E sm db = (None, db')"
    unfolding AddMsg_def by (rule Update_success)
  from AddMsg_fn_success [OF this] obtain cIdxBytes s txidbkt txidbkt1 allb where
    t: "txi db = Some txidbkt" and
    q: "Put txidbkt (take 8 (Txid sm)) (sigIdx cIdxBytes s (Sig sm)) = Inr txidbkt1" and
    d: "db' = db\<lparr>cda := Some allb, txi := Some txidbkt1\<rparr>"
    by blast
  from q have "txidbkt1 = AList.update (take 8 (Txid sm)) (sigIdx cIdxBytes s (Sig sm)) txidbkt"
    by (auto dest: Put_Inr)
  with t d show ?thesis
    by (intro exI [of _ txidbkt] exI [of _ "sigIdx cIdxBytes s (Sig sm)"]) simp
qed

lemma AddMsg_shared_key_overwrites:
  assumes 1: "AddMsg E db sm1 = (None, db1)" and 2: "AddMsg E db1 sm2 = (None, db2)"
    and k: "take 8 (Txid sm1) = take 8 (Txid sm2)"
  shows "\<exists>t r2. txi db = Some t \<and> length r2 = 74 \<and>
           txi db2 = Some (AList.update (take 8 (Txid sm2)) r2 t) \<and>
           length (the (txi db2)) = length (the (txi db1))"
proof -
  from AddMsg_txid_bucket [OF 1] obtain t r1 where
    a: "txi db = Some t" "txi db1 = Some (AList.update (take 8 (Txid sm1)) r1 t)"
    by blast
  from AddMsg_txid_bucket [OF 2] obtain t1 r2 where
    b: "txi db1 = Some t1" "length r2 = 74" "txi db2 = Some (AList.update (take 8 (Txid sm2)) r2 t1)"
    by blast
  from a b k have c: "txi db2 = Some (AList.update (take 8 (Txid sm2)) r2 t)"
    by simp
  from a b k have "length (the (txi db2)) = length (the (txi db1))"
    by (simp add: length_update dom_update)
  with a b c show ?thesis by blast
qed

text \<open>
  Claim C2 (the code departs from it).  The claim: two distinct txids with the same
  leading 8 bytes, both inserted by \<open>AddMsg\<close>, leave both records under the shared key,
  and \<open>CheckTxids\<close> on either txid returns both.  The code at \<open>ex_txid 0\<close> and
  \<open>ex_txid 1\<close>: both calls succeed; after the second the txid bucket holds one record of
  74 bytes under the key, the second message's (state number 2, signature of 64 bytes
  \<open>8\<close>), and the first message's record is gone; \<open>CheckTxids\<close> on either txid returns
  one message, without a record in it.
\<close>

theorem AddMsg_txid_collision_keeps_one_record:
  "ex_txid 0 \<noteq> ex_txid 1 \<and> take 8 (ex_txid 0) = take 8 (ex_txid 1) \<and>
   AddMsg chain_elkrem ex_db (ex_msg 0 4 7) = (None, ex_db1) \<and>
   AddMsg chain_elkrem ex_db1 (ex_msg 1 3 8) = (None, ex_db2) \<and>
   txi ex_db1 = Some [(take 8 (ex_txid 0), [0, 0, 0, 0] @ [0, 0, 0, 0, 0, 1] @ replicate 64 7)] \<and>
   txi ex_db2 = Some [(take 8 (ex_txid 1), [0, 0, 0, 0] @ [0, 0, 0, 0, 0, 2] @ replicate 64 8)] \<and>
   fst (CheckTxids ex_db2 [ex_txid 0]) = Inr [StateMsg_zero\<lparr>Txid := take 16 (ex_txid 0)\<rparr>] \<and>
   fst (CheckTxids ex_db2 [ex_txid 1]) = Inr [StateMsg_zero\<lparr>Txid := take 16 (ex_txid 1)\<rparr>]"
proof -
  have 1: "ex_txid 0 \<noteq> ex_txid 1 \<and> take 8 (ex_txid 0) = take 8 (ex_txid 1)"
    by (simp add: ex_txid_def)
  have 2: "AddMsg chain_elkrem ex_db (ex_msg 0 4 7) = (None, ex_db1)"
    by (simp add: AddMsg_def Update_def AddMsg_fn_def ex_db_def ex_db1_def ex_msg_def ex_txid_def
      ex_pkh_def chain_elkrem_def SubBucket_def Get_def Put_def KEYElkRcv_def KEYStatic_def
      KEYIdx_def be_bytes_8 be_nat_def chain_parent_def sigIdx_def copy_go_def I64tB_def)
  have 3: "AddMsg chain_elkrem ex_db1 (ex_msg 1 3 8) = (None, ex_db2)"
    by (simp add: AddMsg_def Update_def AddMsg_fn_def ex_db_def ex_db1_def ex_db2_def ex_msg_def
      ex_txid_def ex_pkh_def chain_elkrem_def SubBucket_def Get_def Put_def KEYElkRcv_def
      KEYStatic_def KEYIdx_def be_bytes_8 be_nat_def chain_parent_def sigIdx_def copy_go_def
      I64tB_def)
  have 4: "txi ex_db1 = Some [(take 8 (ex_txid 0), [0, 0, 0, 0] @ [0, 0, 0, 0, 0, 1] @ replicate 64 7)]"
    by (simp add: ex_db1_def ex_txid_def)
  have 5: "txi ex_db2 = Some [(take 8 (ex_txid 1), [0, 0, 0, 0] @ [0, 0, 0, 0, 0, 2] @ replicate 64 8)]"
    by (simp add: ex_db2_def ex_txid_def)
  have 6: "fst (CheckTxids ex_db2 [ex_txid t]) = Inr [StateMsg_zero\<lparr>Txid := take 16 (ex_txid t)\<rparr>]" for t
    by (simp add: CheckTxids_def View_def CheckTxids_fn_def ex_db2_def ex_txid_def Get_def
        copy_go_def StateMsg_zero_def)
  from 1 2 3 4 5 6 show ?thesis by blast
qed

section \<open>Properties of the shell commands\<close>

subsection \<open>Parsing\<close>

lemma ParseUint_loop_error:
  "ParseUint_loop n s = Inl e \<Longrightarrow> e = ErrSyntax \<or> e = ErrRange"
  by (induction n s rule: ParseUint_loop.induct) (auto split: if_splits)

lemma ParseInt32_error: "ParseInt32 s = Inl e \<Longrightarrow> e = ErrSyntax \<or> e = ErrRange"
  by (auto simp: ParseInt32_def ParseUint_def Let_def split: if_splits sum.splits
      dest: ParseUint_loop_error)

lemma ParseInt32_range: "ParseInt32 s = Inr v \<Longrightarrow> - 2147483648 \<le> v \<and> v \<le> 2147483647"
  by (auto simp: ParseInt32_def Let_def split: if_splits sum.splits)

lemma ParseInt32_not_ErrMaxPush [simp]: "ParseInt32 s \<noteq> Inl (ErrMaxPush a)"
  using ParseInt32_error [of s "ErrMaxPush a"] by auto

lemma ParseInt32_examples:
  "ParseInt32 ''999999'' = Inr 999999"
  "ParseInt32 ''-5'' = Inr (- 5)"
  "ParseInt32 ''+7'' = Inr 7"
  "ParseInt32 ''2147483648'' = Inl ErrRange"
  "ParseInt32 ''-2147483648'' = Inr (- 2147483648)"
  "ParseInt32 ''12a'' = Inl ErrSyntax"
  "ParseInt32 ''+'' = Inl ErrSyntax"
  "ParseInt32 [] = Inl ErrSyntax"
  by (simp_all add: ParseInt32_def ParseUint_def)

subsection \<open>FundChannel\<close>

lemma FundChannel_unparsable:
  assumes "ParseInt32 (args ! 0) = Inl e \<or> ParseInt32 (args ! 1) = Inl e"
  shows "\<exists>err. FundChannel V nd args = (Some err, nd)"
  using assms by (auto simp: FundChannel_def split: sum.splits)

text \<open>
  Claim C10.  For every capacity and initial send that the arguments parse to,
  \<open>FundChannel\<close> returns an error and leaves the node as it was (no index reserved,
  nothing written to the peer) when the capacity is below 1000000, when either value
  is negative, or when the initial send exceeds the capacity.  When the checks before
  the bounds pass, the error is one of the three errors of the bounds.
\<close>

theorem FundChannel_input_bounds:
  assumes "ParseInt32 (args ! 0) = Inr cCap" and "ParseInt32 (args ! 1) = Inr iSend"
    and "cCap < 1000000 \<or> cCap < 0 \<or> iSend < 0 \<or> iSend > cCap"
  shows "\<exists>err. FundChannel V nd args = (Some err, nd) \<and>
     (2 \<le> length args \<and> \<not> not_connected nd \<and> PeerIdx (InProg nd) = 0 \<longrightarrow>
        err \<in> {ErrNegative, ErrMinCapacity, ErrCantSend iSend cCap})"
  using assms by (auto simp: FundChannel_def)

theorem FundChannel_input_bounds_witness:
  "ParseInt32 ([''999999'', ''0''] ! 0) = Inr 999999 \<and>
   ParseInt32 ([''999999'', ''0''] ! 1) = Inr 0 \<and>
   FundChannel ex_env ex_node [''999999'', ''0''] = (Some ErrMinCapacity, ex_node)"
  using FundChannel_input_bounds [of "[''999999'', ''0'']" 999999 0 ex_env ex_node]
  by (simp add: ParseInt32_def ParseUint_def FundChannel_def not_connected_def ex_node_def)

subsection \<open>Push\<close>

lemma Push_loop_not_ErrMaxPush: "fst (Push_loop V n amt nd qc) \<noteq> Some (ErrMaxPush a)"
  by (induction n arbitrary: nd qc) (auto split: sum.splits prod.splits option.splits)

lemma Push_rejects_with_ErrMaxPush:
  assumes "3 \<le> length args" and "\<not> not_connected nd"
    and "ParseInt32 (args ! 0) = Inr peerIdx64" and "ParseInt32 (args ! 1) = Inr cIdx64"
    and "ParseInt32 (args ! 2) = Inr amt"
    and "length args > 3 \<Longrightarrow> ParseInt32 (args ! 3) = Inr ntimes"
    and "amt < 1 \<or> amt > 100000000"
  shows "Push V nd args = (Some (ErrMaxPush amt), nd)"
  using assms by (auto simp: Push_def)

lemma Push_unparsable_amount:
  assumes "ParseInt32 (args ! 2) = Inl e"
  shows "\<exists>err. Push V nd args = (Some err, nd)"
  using assms by (auto simp: Push_def split: sum.splits)

text \<open>
  Claim C5.  For the amount \<open>amt\<close> that the third argument parses to: when \<open>amt < 1\<close> or
  \<open>amt > 100000000\<close>, \<open>Push\<close> returns an error and the node is as it was (nothing was
  written to the peer, no outside function was called); when \<open>1 \<le> amt \<le> 100000000\<close>,
  \<open>Push\<close> does not return the error of this check.
\<close>

theorem Push_amount_validation:
  assumes "ParseInt32 (args ! 2) = Inr amt"
  shows "(amt < 1 \<or> amt > 100000000 \<longrightarrow> (\<exists>err. Push V nd args = (Some err, nd))) \<and>
         (1 \<le> amt \<and> amt \<le> 100000000 \<longrightarrow> (\<forall>a. fst (Push V nd args) \<noteq> Some (ErrMaxPush a)))"
  using assms
  by (auto simp: Push_def Let_def Push_loop_not_ErrMaxPush simp del: Push_loop.simps
      split: sum.splits)

theorem Push_amount_validation_witness:
  "ParseInt32 ([''1'', ''2'', ''0''] ! 2) = Inr 0 \<and>
   Push ex_env ex_node [''1'', ''2'', ''0''] = (Some (ErrMaxPush 0), ex_node) \<and>
   ParseInt32 ([''1'', ''2'', ''100000000''] ! 2) = Inr 100000000 \<and>
   Push ex_env ex_node [''1'', ''2'', ''100000000''] = (None, ex_node) \<and>
   ParseInt32 ([''1'', ''2'', ''100000001''] ! 2) = Inr 100000001 \<and>
   Push ex_env ex_node [''1'', ''2'', ''100000001''] = (Some (ErrMaxPush 100000001), ex_node)"
proof -
  have 1: "ParseInt32 ([''1'', ''2'', ''0''] ! 2) = Inr 0"
    by (simp add: ParseInt32_def ParseUint_def)
  have 2: "Push ex_env ex_node [''1'', ''2'', ''0''] = (Some (ErrMaxPush 0), ex_node)"
    by (simp add: ParseInt32_def ParseUint_def Push_def not_connected_def ex_node_def)
  have 3: "ParseInt32 ([''1'', ''2'', ''100000000''] ! 2) = Inr 100000000"
    by (simp add: ParseInt32_def ParseUint_def)
  have 4: "Push ex_env ex_node [''1'', ''2'', ''100000000''] = (None, ex_node)"
    by (simp add: ParseInt32_def ParseUint_def Push_def not_connected_def ex_node_def ex_env_def
        ex_qchan_open_def)
  have 5: "ParseInt32 ([''1'', ''2'', ''100000001''] ! 2) = Inr 100000001"
    by (simp add: ParseInt32_def ParseUint_def)
  have 6: "Push ex_env ex_node [''1'', ''2'', ''100000001''] = (Some (ErrMaxPush 100000001), ex_node)"
    by (simp add: ParseInt32_def ParseUint_def Push_def not_connected_def ex_node_def)
  from Push_amount_validation [OF 1, of ex_env ex_node]
       Push_amount_validation [OF 3, of ex_env ex_node] 1 2 3 4 5 6
  show ?thesis by simp
qed

subsection \<open>CloseChannel\<close>

lemma CloseChannel_success:
  assumes "CloseChannel V nd args = (None, nd')"
  shows "\<exists>peerIdx64 cIdx64 qc tx sig.
     ParseInt32 (args ! 0) = Inr peerIdx64 \<and> ParseInt32 (args ! 1) = Inr cIdx64 \<and>
     GetQchanByIdx V nd (word_of_int peerIdx64) (word_of_int cIdx64) = Inr qc \<and>
     SimpleCloseTx V qc = Inr tx \<and> SignSimpleClose V nd qc tx = Inr sig \<and>
     nd' = nd\<lparr>written := written nd @ [MSGID_CLOSEREQ V # OutPointToBytes V (Op qc) @ sig]\<rparr>"
  using assms unfolding CloseChannel_def Let_def Write_def
  by (simp split: if_splits sum.splits)

text \<open>
  Claim C8.  For every \<open>CloseChannel\<close> call that returns \<open>nil\<close>, exactly one message was
  handed to the peer connection, and it is the \<open>CLOSEREQ\<close> opcode byte, followed by the
  serialised funding outpoint of the channel, followed by the signature of the close
  transaction; with the 36-byte outpoint and the 64-byte signature of the
  specification it is 101 bytes, the outpoint at offset 1 and the signature at
  offset 37.
\<close>

theorem CloseChannel_message_layout:
  assumes ok: "CloseChannel V nd args = (None, nd')"
    and parts: "CLOSEREQ_parts_ok V nd"
  shows "\<exists>peerIdx64 cIdx64 qc tx sig msg.
     ParseInt32 (args ! 0) = Inr peerIdx64 \<and> ParseInt32 (args ! 1) = Inr cIdx64 \<and>
     GetQchanByIdx V nd (word_of_int peerIdx64) (word_of_int cIdx64) = Inr qc \<and>
     SimpleCloseTx V qc = Inr tx \<and> SignSimpleClose V nd qc tx = Inr sig \<and>
     written nd' = written nd @ [msg] \<and>
     msg = [MSGID_CLOSEREQ V] @ OutPointToBytes V (Op qc) @ sig \<and>
     length msg = 101 \<and> take 1 msg = [MSGID_CLOSEREQ V] \<and>
     take 36 (drop 1 msg) = OutPointToBytes V (Op qc) \<and> drop 37 msg = sig \<and> length sig = 64"
proof -
  from CloseChannel_success [OF ok] obtain peerIdx64 cIdx64 qc tx sig where
    p: "ParseInt32 (args ! 0) = Inr peerIdx64" "ParseInt32 (args ! 1) = Inr cIdx64" and
    g: "GetQchanByIdx V nd (word_of_int peerIdx64) (word_of_int cIdx64) = Inr qc" and
    t: "SimpleCloseTx V qc = Inr tx" and s: "SignSimpleClose V nd qc tx = Inr sig" and
    n: "nd' = nd\<lparr>written := written nd @ [MSGID_CLOSEREQ V # OutPointToBytes V (Op qc) @ sig]\<rparr>"
    by blast
  from parts s have ls: "length sig = 64"
    unfolding CLOSEREQ_parts_ok_def by blast
  from parts have lo: "length (OutPointToBytes V (Op qc)) = 36"
    unfolding CLOSEREQ_parts_ok_def by blast
  show ?thesis using p g t s n ls lo by simp
qed

lemma ex_env_CLOSEREQ_parts_ok: "CLOSEREQ_parts_ok ex_env nd"
  by (auto simp: CLOSEREQ_parts_ok_def ex_env_def min_def)

lemma ex_CloseChannel:
  "CloseChannel ex_env ex_node [''1'', ''1''] =
     (None, ex_node\<lparr>written := [[0x40] @ (replicate 32 6 @ [0, 0, 0, 1]) @ replicate 64 9]\<rparr>)"
  by (simp add: CloseChannel_def Write_def ParseInt32_def ParseUint_def ex_env_def ex_qchan_def
      ex_node_def not_connected_def RemotePub_def U32tB_def be_bytes_4)

theorem CloseChannel_message_layout_witness:
  "CloseChannel ex_env ex_node [''1'', ''1''] =
     (None, ex_node\<lparr>written := [[0x40] @ (replicate 32 6 @ [0, 0, 0, 1]) @ replicate 64 9]\<rparr>) \<and>
   CLOSEREQ_parts_ok ex_env ex_node \<and>
   (\<exists>msg. written (ex_node\<lparr>written := [[0x40] @ (replicate 32 6 @ [0, 0, 0, 1]) @ replicate 64 9]\<rparr>)
             = written ex_node @ [msg] \<and> length msg = 101)"
proof -
  from CloseChannel_message_layout [OF ex_CloseChannel ex_env_CLOSEREQ_parts_ok] have
    "\<exists>msg. written (ex_node\<lparr>written := [[0x40] @ (replicate 32 6 @ [0, 0, 0, 1]) @ replicate 64 9]\<rparr>)
             = written ex_node @ [msg] \<and> length msg = 101"
    by blast
  with ex_CloseChannel ex_env_CLOSEREQ_parts_ok show ?thesis by blast
qed

lemma CloseChannel_independent_of_write_result:
  "fst (CloseChannel (V\<lparr>Write_result := w\<rparr>) nd args) = fst (CloseChannel V nd args)"
  by (simp add: CloseChannel_def Let_def split: sum.splits)

text \<open>
  Claim C9.  When every step of \<open>CloseChannel\<close> before the last succeeds and the write
  of the \<open>CLOSEREQ\<close> message to the peer connection fails, \<open>CloseChannel\<close> still returns
  \<open>nil\<close>: the error of the write is not returned.
\<close>

theorem CloseChannel_drops_write_error:
  assumes "\<not> not_connected nd" and "2 \<le> length args"
    and "ParseInt32 (args ! 0) = Inr peerIdx64" and "ParseInt32 (args ! 1) = Inr cIdx64"
    and "GetPeerIdx V nd (RemotePub nd) = Inr (word_of_int peerIdx64)"
    and "GetQchanByIdx V nd (word_of_int peerIdx64) (word_of_int cIdx64) = Inr qc"
    and "SimpleCloseTx V qc = Inr tx" and "SignSimpleClose V nd qc tx = Inr sig"
    and "fst (Write V nd ([MSGID_CLOSEREQ V] @ OutPointToBytes V (Op qc) @ sig)) = Some err"
  shows "fst (CloseChannel V nd args) = None"
  using assms by (simp add: CloseChannel_def Let_def)

theorem CloseChannel_drops_write_error_witness:
  "fst (Write ex_env ex_node ([MSGID_CLOSEREQ ex_env] @ OutPointToBytes ex_env (Op ex_qchan) @ replicate 64 9))
     = Some (ErrExternal ''connection lost'') \<and>
   fst (CloseChannel ex_env ex_node [''1'', ''1'']) = None"
proof -
  have 1: "\<not> not_connected ex_node"
    by (simp add: not_connected_def ex_node_def)
  have 2: "2 \<le> length [''1'', ''1'']"
    by simp
  have 3: "ParseInt32 ([''1'', ''1''] ! 0) = Inr 1" "ParseInt32 ([''1'', ''1''] ! 1) = Inr 1"
    by (simp_all add: ParseInt32_def ParseUint_def)
  have 4: "GetPeerIdx ex_env ex_node (RemotePub ex_node) = Inr (word_of_int 1)"
    by (simp add: ex_env_def)
  have 5: "GetQchanByIdx ex_env ex_node (word_of_int 1) (word_of_int 1) = Inr ex_qchan"
    by (simp add: ex_env_def)
  have 6: "SimpleCloseTx ex_env ex_qchan = Inr [1, 2, 3]"
    by (simp add: ex_env_def)
  have 7: "SignSimpleClose ex_env ex_node ex_qchan [1, 2, 3] = Inr (replicate 64 9)"
    by (simp add: ex_env_def)
  have 8: "fst (Write ex_env ex_node
       ([MSGID_CLOSEREQ ex_env] @ OutPointToBytes ex_env (Op ex_qchan) @ replicate 64 9)) =
      Some (ErrExternal ''connection lost'')"
    by (simp add: Write_def ex_env_def)
  from CloseChannel_drops_write_error [OF 1 2 3 4 5 6 7 8] 8 show ?thesis by simp
qed

subsection \<open>BreakChannel\<close>

lemma BreakChannel_no_Closed_check:
  assumes "2 \<le> length args"
    and "ParseInt32 (args ! 0) = Inr peerIdx" and "ParseInt32 (args ! 1) = Inr cIdx"
    and "GetQchanByIdx V nd (word_of_int peerIdx) (word_of_int cIdx) = Inr qc"
    and "ElkSnd_AtIndex V qc 0 = Inr z1" and "ElkRcv_AtIndex V qc 0 = Inr z2"
    and "SignBreakTx V nd (qc\<lparr>Delta := 0\<rparr>) = Inr tx"
  shows "BreakChannel V nd args = PushTx V nd tx"
  using assms by (simp add: BreakChannel_def Let_def)

text \<open>
  Claim C3 (the code departs from it).  The claim: for a channel whose \<open>Closed\<close> flag
  is set, \<open>BreakChannel\<close> returns an error and broadcasts nothing.  The code at the
  closed channel (1, 1): \<open>BreakChannel\<close> returns \<open>nil\<close> and the signed break transaction
  was handed to the wallet for broadcast, where \<open>Push\<close> on the same channel returns its
  channel-closed error and leaves the node as it was.
\<close>

theorem BreakChannel_closed_channel_broadcasts:
  "GetQchanByIdx ex_env ex_node 1 1 = Inr ex_qchan \<and> Closed ex_qchan \<and>
   BreakChannel ex_env ex_node [''1'', ''1''] = (None, ex_node\<lparr>pushed := [[4, 5, 6]]\<rparr>) \<and>
   Push ex_env ex_node [''1'', ''1'', ''5''] = (Some (ErrChannelClosed 1 1), ex_node)"
  by (simp add: BreakChannel_def Push_def PushTx_def ParseInt32_def ParseUint_def ex_env_def
      ex_qchan_def ex_node_def not_connected_def RemotePub_def)

end
